theory Spec2Isabelle
  imports Main
begin

section \<open>Data model of \<open>src/lib/Transfer.ts\<close>\<close>

text \<open>
  JavaScript numbers that hold atomic units, heights, indexes and counts are modelled as
  \<open>int\<close>: the source compares them with \<open>===\<close>, \<open><\<close> and adds them, and never
  divides. Fractional values, \<open>NaN\<close> and sums beyond \<open>2 ^ 53\<close> are outside the model.
  Keys, addresses, hashes and raw transactions are strings.
\<close>

text \<open>
  \<open>Number.MAX_SAFE_INTEGER\<close>: sums of non-negative integers that stay at or below it are
  exact in JavaScript, so \<open>int\<close> addition is the program's addition there.
\<close>

definition maxSafeInteger :: int where
  "maxSafeInteger = 2 ^ 53 - 1"

subsection \<open>Thrown values\<close>

text \<open>
  A value thrown by a collaborator is an \<open>Error\<close> object with a name and a message.
  \<open>toString\<close> is \<open>Error.prototype.toString\<close>: the message alone when the name is
  empty, the name alone when the message is empty, and \<open>name + ": " + message\<close> otherwise.
\<close>

datatype js_error = JsError string string


fun toString :: "js_error \<Rightarrow> string" where
  "toString (JsError name msg) =
     (if name = [] then msg else if msg = [] then name else name @ '': '' @ msg)"

text \<open>The result of calling a collaborator that may throw.\<close>

datatype 'a js_result = Returned 'a | Threw js_error

subsection \<open>\<open>WalletError\<close>\<close>

text \<open>
  \<open>WalletError.ts\<close> is imported by the source. The five codes that \<open>Transfer.ts\<close>
  names are constructors; \<open>OTHER_CODE n\<close> stands for the remaining members of the
  enumeration, which only the validators return.
\<close>

datatype WalletErrorCode =
    SUCCESS
  | UNKNOWN_ERROR
  | DAEMON_OFFLINE
  | DAEMON_ERROR
  | NOT_ENOUGH_FAKE_OUTPUTS
  | OTHER_CODE nat

text \<open>
  The custom message of a \<open>WalletError\<close>. The two template strings of
  \<open>getRingParticipants\<close> are kept as constructors that carry the interpolated values:

  \<^item> \<open>FailedToGetAny amount\<close> is
    \<^verbatim>\<open>Failed to get any matching outputs for amount ${amount} (${prettyPrintAmount(amount)}). ...\<close>
  \<^item> \<open>FailedToGetEnough amount needed found\<close> is
    \<^verbatim>\<open>Failed to get enough matching outputs for amount ${amount} (${prettyPrintAmount(amount)}). Needed outputs: ${needed} , found outputs: ${found}. ...\<close>
  \<^item> \<open>Text s\<close> is any other string;
  \<^item> \<open>NoMessage\<close> is a \<open>WalletError\<close> constructed from its code alone.
\<close>

datatype message =
    NoMessage
  | Text string
  | FailedToGetAny int
  | FailedToGetEnough int int int

record WalletError =
  errorCode :: WalletErrorCode
  customMessage :: message

text \<open>\<open>new WalletError(code)\<close> and \<open>new WalletError(code, message)\<close>.\<close>

definition newWalletError :: "WalletErrorCode \<Rightarrow> WalletError" where
  "newWalletError code = \<lparr>errorCode = code, customMessage = NoMessage\<rparr>"

definition newWalletErrorMsg :: "WalletErrorCode \<Rightarrow> message \<Rightarrow> WalletError" where
  "newWalletErrorMsg code msg = \<lparr>errorCode = code, customMessage = msg\<rparr>"

text \<open>
  The shared sentinel \<open>SUCCESS\<close>. The source tests \<open>!deepEqual(error, SUCCESS)\<close>, a
  structural comparison, which is inequality of records here.
\<close>

definition SUCCESS :: WalletError where
  "SUCCESS = newWalletError WalletErrorCode.SUCCESS"

subsection \<open>Inputs, outputs and the transaction\<close>

text \<open>
  The types of \<open>turtlecoin-utils\<close> and \<open>Types.ts\<close>, with the fields the source reads
  or writes. Field names shared by several records are written qualified.
\<close>

record TransactionInput =
  transactionPublicKey :: string
  transactionIndex :: int
  globalOutputIndex :: int
  amount :: int
  key :: string

record TxInputAndOwner =
  input :: TransactionInput
  publicSpendKey :: string
  privateSpendKey :: string

record RandomOutput =
  globalIndex :: int
  key :: string

record DecodedAddress =
  publicViewKey :: string
  publicSpendKey :: string
  paymentId :: string

record TxDestination =
  amount :: int
  keys :: DecodedAddress

text \<open>The object literal under \<open>input:\<close> at lines 164 to 168.\<close>

record OutputInput =
  privateEphemeral :: string
  privateSpendKey :: string
  publicSpendKey :: string

record Output =
  amount :: int
  globalIndex :: int
  index :: int
  input :: OutputInput
  key :: string
  keyImage :: string

record CreatedTransaction =
  rawTransaction :: string
  hash :: string

text \<open>
  One bucket of the daemon's answer: the two-element array \<open>[amount, outputs]\<close>, where
  \<open>outputs\<close> is an array of two-element arrays \<open>[index, key]\<close>.
\<close>

type_synonym bucket = "int \<times> (int \<times> string) list"

text \<open>
  \<open>.length\<close> of a two-element array. Line 253 reads \<open>foundOutputs.length\<close>, where
  \<open>foundOutputs\<close> is the element of \<open>outs\<close> that \<open>_.find\<close> returned: the array
  \<open>[amount, outputs]\<close> itself (lines 242 and 278 destructure the elements of \<open>outs\<close>
  so), not its second component.
\<close>

definition tupleLength :: "'a \<times> 'b \<Rightarrow> int" where
  "tupleLength p = 2"

subsection \<open>Collaborators\<close>

text \<open>
  The collaborators are imported modules and objects whose code is elsewhere; each is a
  record of what the source calls on it. The getters are synchronous and are read as
  values. The three calls that can fail (decoding an address, building the transaction,
  submitting it) return a \<open>js_result\<close>.
\<close>

record IDaemon =
  getNetworkBlockCount :: int
  nodeFee :: "string \<times> int"
  getRandomOutputsByAmount :: "int list \<Rightarrow> int \<Rightarrow> bucket list"
  sendTransaction :: "string \<Rightarrow> bool js_result"

record SubWallets =
  getAddresses :: "string list"
  getPrimaryAddress :: string
  getPrivateViewKey :: string
  getTransactionInputsForAmount ::
    "int \<Rightarrow> string list \<Rightarrow> int \<Rightarrow> TxInputAndOwner list \<times> int"

record Config =
  getDefaultMixinByHeight :: "int \<Rightarrow> int"
  minimumFee :: int

record CnUtils =
  decodeAddress :: "string \<Rightarrow> DecodedAddress js_result"
  generateKeyImage :: "string \<Rightarrow> string \<Rightarrow> string \<Rightarrow> string \<Rightarrow> int \<Rightarrow> string \<times> string"
  createTransaction ::
    "TxDestination list \<Rightarrow> Output list \<Rightarrow> RandomOutput list list \<Rightarrow> int \<Rightarrow> int \<Rightarrow> string
       \<Rightarrow> CreatedTransaction js_result"

text \<open>
  The validators of \<open>ValidateParameters.ts\<close>, which the source imports. Their code is
  elsewhere; each is taken as a function of the arguments that \<open>validateTransaction\<close>
  passes to it, with no effect besides its result.
\<close>

record ValidateParameters =
  validateDestinations :: "(string \<times> int) list \<Rightarrow> WalletError"
  validateIntegratedAddresses :: "(string \<times> int) list \<Rightarrow> string \<Rightarrow> WalletError"
  validateOurAddresses :: "string list \<Rightarrow> SubWallets \<Rightarrow> WalletError"
  validateAmount ::
    "(string \<times> int) list \<Rightarrow> int \<Rightarrow> string list \<Rightarrow> SubWallets \<Rightarrow> int \<Rightarrow> WalletError"
  validateMixin :: "int \<Rightarrow> int \<Rightarrow> WalletError"
  validatePaymentID :: "string \<Rightarrow> WalletError"

record Modules =
  config :: Config
  CryptoUtils :: CnUtils
  validators :: ValidateParameters

subsection \<open>Arrays shared with the caller\<close>

text \<open>
  \<open>addressesAndAmounts\<close> is an array object that the caller passes by reference and the
  source pushes onto. The store maps array references to their contents; the functions
  below take the store and return the new one.
\<close>

type_synonym store = "nat \<Rightarrow> (string \<times> int) list"

subsection \<open>Calls and outcomes\<close>

text \<open>
  Calls to the collaborators that receive the request's data, in the order they are made.
  The daemon's two asynchronous requests are the network calls.
\<close>

datatype call =
    GetTransactionInputsForAmount int "string list" int
  | GetRandomOutputsByAmount "int list" int
  | CreateTransaction "TxDestination list" "Output list" "RandomOutput list list" int int string
  | SendTransaction string

fun isNetworkCall :: "call \<Rightarrow> bool" where
  "isNetworkCall (GetTransactionInputsForAmount totalAmount addresses height) = False"
| "isNetworkCall (GetRandomOutputsByAmount amounts mixin) = True"
| "isNetworkCall (CreateTransaction transfers ourOutputs randomOuts mixin fee paymentID) = False"
| "isNetworkCall (SendTransaction raw) = True"

text \<open>
  The promise that \<open>sendTransactionAdvanced\<close> returns either resolves with a
  \<open>WalletError\<close> or a transaction hash, or rejects with a thrown value that nothing in
  the function caught.
\<close>

datatype outcome = Resolved "WalletError + string" | Rejected js_error

section \<open>\<open>getRingParticipants\<close>\<close>

text \<open>The arrow function of line 289: a pair \<open>[index, key]\<close> becomes an object.\<close>

definition toRandomOutput :: "int \<times> string \<Rightarrow> RandomOutput" where
  "toRandomOutput p =
     (case p of (idx, k) \<Rightarrow> \<lparr>RandomOutput.globalIndex = idx, RandomOutput.key = k\<rparr>)"

text \<open>
  The first loop (lines 240 to 262), over the requested amounts: \<open>_.find\<close> returns the
  first bucket whose amount equals the requested one, or \<open>undefined\<close>. (The loop variable
  \<open>amount\<close> is written \<open>amt\<close>, since \<open>amount\<close> is a field selector here.)
\<close>

fun checkAmounts :: "int \<Rightarrow> int \<Rightarrow> bucket list \<Rightarrow> int list \<Rightarrow> WalletError option" where
  "checkAmounts mixin requestedOuts outs [] = None"
| "checkAmounts mixin requestedOuts outs (amt # rest) =
     (case find (\<lambda>(outAmount, ignore). amt = outAmount) outs of
        None \<Rightarrow>
          Some (newWalletErrorMsg NOT_ENOUGH_FAKE_OUTPUTS (FailedToGetAny amt))
      | Some foundOutputs \<Rightarrow>
          if tupleLength foundOutputs < mixin
          then Some (newWalletErrorMsg NOT_ENOUGH_FAKE_OUTPUTS
                       (FailedToGetEnough amt requestedOuts (tupleLength foundOutputs)))
          else checkAmounts mixin requestedOuts outs rest)"

text \<open>
  The second loop (lines 278 to 295), over the buckets of the answer, pushing onto
  \<open>randomOuts\<close>.
\<close>

fun collectRandomOuts ::
  "int \<Rightarrow> int \<Rightarrow> bucket list \<Rightarrow> RandomOutput list list \<Rightarrow> WalletError + RandomOutput list list"
where
  "collectRandomOuts mixin requestedOuts [] randomOuts = Inr randomOuts"
| "collectRandomOuts mixin requestedOuts ((amt, outputs) # rest) randomOuts =
     (if int (length outputs) < mixin
      then Inl (newWalletErrorMsg NOT_ENOUGH_FAKE_OUTPUTS
                  (FailedToGetEnough amt requestedOuts (int (length outputs))))
      else collectRandomOuts mixin requestedOuts rest
             (randomOuts @ [map toRandomOutput outputs]))"

text \<open>Line 232: the amount of every input, in the inputs' order.\<close>

definition amountsOf :: "TxInputAndOwner list \<Rightarrow> int list" where
  "amountsOf inputs = map (\<lambda>i. TransactionInput.amount (TxInputAndOwner.input i)) inputs"

text \<open>
  \<open>getRingParticipants\<close> returns its result together with the calls it made.
\<close>

definition getRingParticipants ::
  "TxInputAndOwner list \<Rightarrow> int \<Rightarrow> IDaemon \<Rightarrow> (WalletError + RandomOutput list list) \<times> call list"
where
  "getRingParticipants inputs mixin daemon =
     (if mixin = 0 then (Inr [], [])
      else
        let requestedOuts = mixin + 1;
            amounts = amountsOf inputs;
            outs = getRandomOutputsByAmount daemon amounts mixin;
            calls = [GetRandomOutputsByAmount amounts mixin]
        in if length outs = 0 then (Inl (newWalletError DAEMON_OFFLINE), calls)
           else
             (case checkAmounts mixin requestedOuts outs amounts of
                Some error \<Rightarrow> (Inl error, calls)
              | None \<Rightarrow>
                  if length outs \<noteq> length amounts
                  then (Inl (newWalletError NOT_ENOUGH_FAKE_OUTPUTS), calls)
                  else (collectRandomOuts mixin requestedOuts outs [], calls)))"

section \<open>\<open>validateTransaction\<close>\<close>

definition validateTransaction ::
  "ValidateParameters \<Rightarrow> (string \<times> int) list \<Rightarrow> int \<Rightarrow> int \<Rightarrow> string \<Rightarrow> string list \<Rightarrow> string
     \<Rightarrow> int \<Rightarrow> SubWallets \<Rightarrow> WalletError"
where
  "validateTransaction v destinations mixin fee paymentID subWalletsToTakeFrom changeAddress
     currentHeight subWallets =
     (let error = validateDestinations v destinations in
      if error \<noteq> SUCCESS then error else
      let error = validateIntegratedAddresses v destinations paymentID in
      if error \<noteq> SUCCESS then error else
      let error = validateOurAddresses v subWalletsToTakeFrom subWallets in
      if error \<noteq> SUCCESS then error else
      let error = validateAmount v destinations fee subWalletsToTakeFrom subWallets currentHeight in
      if error \<noteq> SUCCESS then error else
      let error = validateMixin v mixin currentHeight in
      if error \<noteq> SUCCESS then error else
      let error = validatePaymentID v paymentID in
      if error \<noteq> SUCCESS then error else
      let error = validateOurAddresses v [changeAddress] subWallets in
      if error \<noteq> SUCCESS then error else
      SUCCESS)"

section \<open>\<open>sendTransactionAdvanced\<close>\<close>

text \<open>
  Lines 87 to 107: the optional parameters and their defaults, in the order mixin, fee,
  payment ID, subwallets to take from, change address. \<open>None\<close> is \<open>undefined\<close>.
\<close>

definition applyDefaults ::
  "Config \<Rightarrow> IDaemon \<Rightarrow> SubWallets \<Rightarrow> int option \<Rightarrow> int option \<Rightarrow> string option
     \<Rightarrow> string list option \<Rightarrow> string option \<Rightarrow> int \<times> int \<times> string \<times> string list \<times> string"
where
  "applyDefaults cfg daemon subWallets mixin fee paymentID subWalletsToTakeFrom changeAddress =
     ((case mixin of
         None \<Rightarrow> getDefaultMixinByHeight cfg (getNetworkBlockCount daemon)
       | Some m \<Rightarrow> m),
      (case fee of None \<Rightarrow> minimumFee cfg | Some f \<Rightarrow> f),
      (case paymentID of None \<Rightarrow> [] | Some p \<Rightarrow> p),
      (case subWalletsToTakeFrom of
         None \<Rightarrow> getAddresses subWallets
       | Some ws \<Rightarrow> if length ws = 0 then getAddresses subWallets else ws),
      (case changeAddress of
         None \<Rightarrow> getPrimaryAddress subWallets
       | Some c \<Rightarrow> if c = [] then getPrimaryAddress subWallets else c))"

text \<open>
  Lines 109 to 114: the node fee is pushed onto the caller's array when its amount is
  not zero.
\<close>

definition addNodeFee :: "IDaemon \<Rightarrow> store \<Rightarrow> nat \<Rightarrow> store" where
  "addNodeFee daemon st addressesAndAmounts =
     (case nodeFee daemon of
        (feeAddress, feeAmount) \<Rightarrow>
          if feeAmount \<noteq> 0
          then st(addressesAndAmounts := st addressesAndAmounts @ [(feeAddress, feeAmount)])
          else st)"

text \<open>
  Lines 132 to 144: the \<open>map\<close> over the destinations. The arrow function decodes the
  address, which may throw, and assigns the outer \<open>paymentID\<close> when the decoded address
  carries one; the function returns the transfers together with the final \<open>paymentID\<close>.
\<close>

fun prepareTransfers ::
  "CnUtils \<Rightarrow> (string \<times> int) list \<Rightarrow> string \<Rightarrow> js_error + (TxDestination list \<times> string)"
where
  "prepareTransfers cu [] paymentID = Inr ([], paymentID)"
| "prepareTransfers cu ((address, amt) # rest) paymentID =
     (case decodeAddress cu address of
        Threw err \<Rightarrow> Inl err
      | Returned decoded \<Rightarrow>
          (case prepareTransfers cu rest
                  (if paymentId decoded \<noteq> [] then paymentId decoded else paymentID) of
             Inl err \<Rightarrow> Inl err
           | Inr (transfers, paymentID') \<Rightarrow>
               Inr (\<lparr>TxDestination.amount = amt, keys = decoded\<rparr> # transfers, paymentID')))"

text \<open>Lines 150 to 172: the arrow function that turns an input into one of our outputs.\<close>

definition toOurOutput :: "CnUtils \<Rightarrow> SubWallets \<Rightarrow> TxInputAndOwner \<Rightarrow> Output" where
  "toOurOutput cu subWallets i =
     (case generateKeyImage cu
             (transactionPublicKey (TxInputAndOwner.input i))
             (getPrivateViewKey subWallets)
             (TxInputAndOwner.publicSpendKey i)
             (TxInputAndOwner.privateSpendKey i)
             (transactionIndex (TxInputAndOwner.input i)) of
        (keyImg, tmpSecretKey) \<Rightarrow>
          \<lparr>Output.amount = TransactionInput.amount (TxInputAndOwner.input i),
           Output.globalIndex = globalOutputIndex (TxInputAndOwner.input i),
           index = transactionIndex (TxInputAndOwner.input i),
           Output.input =
             \<lparr>privateEphemeral = tmpSecretKey,
              OutputInput.privateSpendKey = TxInputAndOwner.privateSpendKey i,
              OutputInput.publicSpendKey = TxInputAndOwner.publicSpendKey i\<rparr>,
           Output.key = TransactionInput.key (TxInputAndOwner.input i),
           keyImage = keyImg\<rparr>)"

text \<open>
  The function takes the store and the reference of \<open>addressesAndAmounts\<close>, and returns
  the outcome, the store as the call leaves it, and the calls made. The logger's output
  at line 190 is not part of the model.
\<close>

definition sendTransactionAdvanced ::
  "Modules \<Rightarrow> IDaemon \<Rightarrow> SubWallets \<Rightarrow> store \<Rightarrow> nat \<Rightarrow> int option \<Rightarrow> int option \<Rightarrow> string option
     \<Rightarrow> string list option \<Rightarrow> string option \<Rightarrow> outcome \<times> store \<times> call list"
where
  "sendTransactionAdvanced m daemon subWallets st addressesAndAmounts mixinArg feeArg
     paymentIDArg subWalletsToTakeFromArg changeAddressArg =
     (case applyDefaults (config m) daemon subWallets mixinArg feeArg paymentIDArg
             subWalletsToTakeFromArg changeAddressArg of
        (mixin, fee, paymentID, subWalletsToTakeFrom, changeAddress) \<Rightarrow>
     let st1 = addNodeFee daemon st addressesAndAmounts;
         error = validateTransaction (validators m) (st1 addressesAndAmounts) mixin fee
                   paymentID subWalletsToTakeFrom changeAddress (getNetworkBlockCount daemon)
                   subWallets
     in if error \<noteq> SUCCESS then (Resolved (Inl error), st1, [])
        else
          let totalAmount = sum_list (map snd (st1 addressesAndAmounts)) + fee in
          (case prepareTransfers (CryptoUtils m) (st1 addressesAndAmounts) paymentID of
             Inl err \<Rightarrow> (Rejected err, st1, [])
           | Inr (transfers, paymentID1) \<Rightarrow>
               (case getTransactionInputsForAmount subWallets totalAmount subWalletsToTakeFrom
                       (getNetworkBlockCount daemon) of
                  (inputs, foundMoney) \<Rightarrow>
               let calls1 = [GetTransactionInputsForAmount totalAmount subWalletsToTakeFrom
                               (getNetworkBlockCount daemon)];
                   ourOutputs = map (toOurOutput (CryptoUtils m) subWallets) inputs
               in (case getRingParticipants inputs mixin daemon of
                     (Inl walletError, calls2) \<Rightarrow>
                       (Resolved (Inl walletError), st1, calls1 @ calls2)
                   | (Inr randomOuts, calls2) \<Rightarrow>
                       let calls3 = calls1 @ calls2 @
                             [CreateTransaction transfers ourOutputs randomOuts mixin fee
                                paymentID1]
                       in (case createTransaction (CryptoUtils m) transfers ourOutputs
                                  randomOuts mixin fee paymentID1 of
                             Threw err \<Rightarrow>
                               (Resolved (Inl (newWalletErrorMsg UNKNOWN_ERROR
                                                 (Text (toString err)))),
                                st1, calls3)
                           | Returned tx \<Rightarrow>
                               let calls4 = calls3 @ [SendTransaction (rawTransaction tx)]
                               in (case sendTransaction daemon (rawTransaction tx) of
                                     Returned relaySuccess \<Rightarrow>
                                       if relaySuccess
                                       then (Resolved (Inr (hash tx)), st1, calls4)
                                       else (Resolved (Inl (newWalletError DAEMON_ERROR)),
                                             st1, calls4)
                                   | Threw err \<Rightarrow>
                                       (Resolved (Inl (newWalletError DAEMON_OFFLINE)),
                                        st1, calls4)))))))"

section \<open>The validator's contract in the words of the specification\<close>

text \<open>
  Section 4.1 of the specification: the seven stages, in its order, and a run that stops
  at the first stage whose result is not \<open>SUCCESS\<close>. These two definitions follow the
  specification, not the source; \<open>validateTransaction\<close> above is compared with them.
\<close>

primrec firstFailure :: "WalletError list \<Rightarrow> WalletError" where
  "firstFailure [] = SUCCESS"
| "firstFailure (e # es) = (if e \<noteq> SUCCESS then e else firstFailure es)"

definition validationStages ::
  "ValidateParameters \<Rightarrow> (string \<times> int) list \<Rightarrow> int \<Rightarrow> int \<Rightarrow> string \<Rightarrow> string list \<Rightarrow> string
     \<Rightarrow> int \<Rightarrow> SubWallets \<Rightarrow> WalletError list"
where
  "validationStages v destinations mixin fee paymentID subWalletsToTakeFrom changeAddress
     currentHeight subWallets =
     [validateDestinations v destinations,
      validateIntegratedAddresses v destinations paymentID,
      validateOurAddresses v subWalletsToTakeFrom subWallets,
      validateAmount v destinations fee subWalletsToTakeFrom subWallets currentHeight,
      validateMixin v mixin currentHeight,
      validatePaymentID v paymentID,
      validateOurAddresses v [changeAddress] subWallets]"

section \<open>Concrete requests\<close>

text \<open>
  Inputs, ledger answers and collaborators on which the theorems below are evaluated.
\<close>

definition exampleInput :: "int \<Rightarrow> TxInputAndOwner" where
  "exampleInput a =
     \<lparr>TxInputAndOwner.input =
        \<lparr>transactionPublicKey = ''txpub'', transactionIndex = 0, globalOutputIndex = 0,
         TransactionInput.amount = a, TransactionInput.key = ''outkey''\<rparr>,
      TxInputAndOwner.publicSpendKey = ''spendpub'',
      TxInputAndOwner.privateSpendKey = ''spendpriv''\<rparr>"

definition exampleDaemon :: "bucket list \<Rightarrow> string \<times> int \<Rightarrow> bool js_result \<Rightarrow> IDaemon" where
  "exampleDaemon outs nf relay =
     \<lparr>getNetworkBlockCount = 1000, nodeFee = nf,
      getRandomOutputsByAmount = (\<lambda>amounts mixin. outs),
      sendTransaction = (\<lambda>raw. relay)\<rparr>"

definition fiveDecoys :: "(int \<times> string) list" where
  "fiveDecoys = [(11, ''k11''), (12, ''k12''), (13, ''k13''), (14, ''k14''), (15, ''k15'')]"

definition twoDecoys :: "(int \<times> string) list" where
  "twoDecoys = [(21, ''k21''), (22, ''k22'')]"

definition oneDecoy :: "(int \<times> string) list" where
  "oneDecoy = [(31, ''k31'')]"

definition noNodeFee :: "string \<times> int" where
  "noNodeFee = ([], 0)"

text \<open>
  A wallet with one address and one spendable input, a configuration with default mixin 1
  and minimum fee 10, an address codec that rejects the empty address, validators that
  bound the total by 1000 and the mixin by 3, and a build step with a fixed result.
\<close>

definition exampleSubWallets :: "TxInputAndOwner list \<Rightarrow> SubWallets" where
  "exampleSubWallets inputs =
     \<lparr>getAddresses = [''walletA''], getPrimaryAddress = ''walletA'',
      getPrivateViewKey = ''viewkey'',
      getTransactionInputsForAmount =
        (\<lambda>totalAmount addresses height. (inputs, sum_list (amountsOf inputs)))\<rparr>"

definition exampleConfig :: Config where
  "exampleConfig = \<lparr>getDefaultMixinByHeight = (\<lambda>height. 1), minimumFee = 10\<rparr>"

definition exampleDecoded :: DecodedAddress where
  "exampleDecoded =
     \<lparr>publicViewKey = ''view'', DecodedAddress.publicSpendKey = ''spend'', paymentId = []\<rparr>"

definition exampleCryptoUtils :: "CreatedTransaction js_result \<Rightarrow> CnUtils" where
  "exampleCryptoUtils built =
     \<lparr>decodeAddress =
        (\<lambda>address. if address = [] then Threw (JsError ''Error'' ''Invalid address'')
                   else Returned exampleDecoded),
      generateKeyImage = (\<lambda>txPublicKey viewKey spendPublic spendPrivate idx.
                           (''keyimage'', ''ephemeral'')),
      createTransaction = (\<lambda>transfers ourOutputs randomOuts mixin fee paymentID. built)\<rparr>"

definition exampleValidators :: ValidateParameters where
  "exampleValidators =
     \<lparr>validateDestinations =
        (\<lambda>destinations. if destinations = [] then newWalletError (OTHER_CODE 1) else SUCCESS),
      validateIntegratedAddresses = (\<lambda>destinations paymentID. SUCCESS),
      validateOurAddresses =
        (\<lambda>addresses subWallets.
           if set addresses \<subseteq> set (getAddresses subWallets) then SUCCESS
           else newWalletError (OTHER_CODE 3)),
      validateAmount =
        (\<lambda>destinations fee addresses subWallets height.
           if sum_list (map snd destinations) + fee \<le> 1000 then SUCCESS
           else newWalletError (OTHER_CODE 4)),
      validateMixin =
        (\<lambda>mixin height. if 0 \<le> mixin \<and> mixin \<le> 3 then SUCCESS
                        else newWalletError (OTHER_CODE 5)),
      validatePaymentID =
        (\<lambda>paymentID. if paymentID = [] \<or> length paymentID = 64 then SUCCESS
                      else newWalletError (OTHER_CODE 6))\<rparr>"

definition exampleModules :: "CreatedTransaction js_result \<Rightarrow> Modules" where
  "exampleModules built =
     \<lparr>config = exampleConfig, CryptoUtils = exampleCryptoUtils built,
      validators = exampleValidators\<rparr>"

definition exampleTx :: CreatedTransaction where
  "exampleTx = \<lparr>rawTransaction = ''rawtx'', hash = ''txhash''\<rparr>"

definition exampleStore :: store where
  "exampleStore = (\<lambda>r. [])(0 := [(''dest'', 50)])"

definition exampleSend ::
  "string \<times> int \<Rightarrow> bool js_result \<Rightarrow> CreatedTransaction js_result \<Rightarrow> int option \<Rightarrow> store
     \<Rightarrow> outcome \<times> store \<times> call list"
where
  "exampleSend nf relay built mixinArg st =
     sendTransactionAdvanced (exampleModules built) (exampleDaemon [(100, oneDecoy)] nf relay)
       (exampleSubWallets [exampleInput 100]) st 0 mixinArg None None None None"

definition exampleTransfers :: "TxDestination list" where
  "exampleTransfers =
     [\<lparr>TxDestination.amount = 50, keys = exampleDecoded\<rparr>,
      \<lparr>TxDestination.amount = 5, keys = exampleDecoded\<rparr>]"

definition exampleOurOutputs :: "Output list" where
  "exampleOurOutputs =
     [\<lparr>Output.amount = 100, Output.globalIndex = 0, index = 0,
       Output.input =
         \<lparr>privateEphemeral = ''ephemeral'', OutputInput.privateSpendKey = ''spendpriv'',
          OutputInput.publicSpendKey = ''spendpub''\<rparr>,
       Output.key = ''outkey'', keyImage = ''keyimage''\<rparr>]"

definition exampleCalls :: "call list" where
  "exampleCalls =
     [GetTransactionInputsForAmount 65 [''walletA''] 1000,
      GetRandomOutputsByAmount [100] 1,
      CreateTransaction exampleTransfers exampleOurOutputs [map toRandomOutput oneDecoy] 1 10 []]"

text \<open>The definitions that evaluation unfolds.\<close>

lemmas example_defs =
  exampleSend_def exampleModules_def exampleDaemon_def exampleSubWallets_def
  exampleConfig_def exampleCryptoUtils_def exampleValidators_def exampleDecoded_def
  exampleTx_def exampleStore_def exampleInput_def exampleTransfers_def
  exampleOurOutputs_def exampleCalls_def oneDecoy_def noNodeFee_def

lemmas model_defs =
  sendTransactionAdvanced_def applyDefaults_def addNodeFee_def validateTransaction_def
  toOurOutput_def getRingParticipants_def amountsOf_def tupleLength_def toRandomOutput_def
  SUCCESS_def newWalletError_def newWalletErrorMsg_def

section \<open>Properties of \<open>getRingParticipants\<close>\<close>

subsection \<open>The two loops\<close>

text \<open>
  The second loop succeeds exactly when every bucket of the answer has at least \<open>mixin\<close>
  entries, and then appends the reshaped buckets in the answer's order; otherwise it
  reports the first short bucket.
\<close>

lemma collectRandomOuts_sufficient:
  "\<forall>b\<in>set outs. mixin \<le> int (length (snd b)) \<Longrightarrow>
   collectRandomOuts mixin r outs acc = Inr (acc @ map (\<lambda>b. map toRandomOutput (snd b)) outs)"
  by (induction outs arbitrary: acc) auto

lemma collectRandomOuts_Inr:
  "collectRandomOuts mixin r outs acc = Inr res \<Longrightarrow>
   res = acc @ map (\<lambda>b. map toRandomOutput (snd b)) outs
   \<and> (\<forall>b\<in>set outs. mixin \<le> int (length (snd b)))"
proof (induction outs arbitrary: acc)
  case Nil
  then show ?case by simp
next
  case (Cons b outs)
  obtain amt outputs where b: "b = (amt, outputs)" by (cases b)
  from Cons.prems b have enough: "\<not> int (length outputs) < mixin"
    by (auto split: if_splits)
  with Cons.prems b
  have "collectRandomOuts mixin r outs (acc @ [map toRandomOutput outputs]) = Inr res"
    by simp
  from Cons.IH [OF this] enough b show ?case by simp
qed

lemma collectRandomOuts_first_short:
  "\<forall>b\<in>set pre. mixin \<le> int (length (snd b)) \<Longrightarrow> int (length outputs) < mixin \<Longrightarrow>
   collectRandomOuts mixin r (pre @ (amt, outputs) # post) acc =
     Inl (newWalletErrorMsg NOT_ENOUGH_FAKE_OUTPUTS
            (FailedToGetEnough amt r (int (length outputs))))"
  by (induction pre arbitrary: acc) auto

lemma find_amount_None:
  "find (\<lambda>(outAmount, ignore). a = outAmount) outs = None \<longleftrightarrow> a \<notin> fst ` set outs"
  by (induction outs) auto

lemma find_amount_Some:
  "find (\<lambda>(outAmount, ignore). a = outAmount) outs = Some b \<Longrightarrow> a \<in> fst ` set outs"
  by (induction outs) (auto split: if_splits)

lemma checkAmounts_None_iff:
  "checkAmounts mixin r outs amounts = None \<longleftrightarrow>
     (\<forall>a\<in>set amounts. a \<in> fst ` set outs) \<and> (amounts = [] \<or> mixin \<le> 2)"
  by (induction amounts) (auto simp: find_amount_None tupleLength_def split: option.splits dest: find_amount_Some)

subsection \<open>An empty answer\<close>

text \<open>
  C4. For every resolution with \<open>mixin > 0\<close> whose ledger response has zero buckets, the
  result is the connectivity error \<open>DAEMON_OFFLINE\<close>, whatever the inputs are (the check
  comes before every per-amount check), and its code is not \<open>NOT_ENOUGH_FAKE_OUTPUTS\<close>.
\<close>

theorem empty_response_is_daemon_offline:
  assumes "0 < mixin"
    and "getRandomOutputsByAmount daemon (amountsOf inputs) mixin = []"
  shows "fst (getRingParticipants inputs mixin daemon) = Inl (newWalletError DAEMON_OFFLINE)
       \<and> errorCode (newWalletError DAEMON_OFFLINE) \<noteq> NOT_ENOUGH_FAKE_OUTPUTS"
  using assms by (simp add: getRingParticipants_def Let_def newWalletError_def)

text \<open>The theorem at one input of amount 100, \<open>mixin = 3\<close> and an empty answer.\<close>

theorem empty_response_is_daemon_offline_witness:
  "(0::int) < 3
   \<and> getRandomOutputsByAmount (exampleDaemon [] noNodeFee (Returned True))
        (amountsOf [exampleInput 100]) 3 = []
   \<and> fst (getRingParticipants [exampleInput 100] 3
            (exampleDaemon [] noNodeFee (Returned True)))
       = Inl (newWalletError DAEMON_OFFLINE)
   \<and> errorCode (newWalletError DAEMON_OFFLINE) \<noteq> NOT_ENOUGH_FAKE_OUTPUTS"
proof -
  have h1: "(0::int) < 3" by simp
  have h2: "getRandomOutputsByAmount (exampleDaemon [] noNodeFee (Returned True))
        (amountsOf [exampleInput 100]) 3 = []"
    by (simp add: exampleDaemon_def)
  from empty_response_is_daemon_offline [OF h1 h2] h1 h2 show ?thesis by simp
qed

subsection \<open>Zero mixin\<close>

text \<open>
  With one input and \<open>mixin = 0\<close> the result is the empty array, whose length is not the
  number of inputs.
\<close>

theorem zero_mixin_counterexample:
  "fst (getRingParticipants [exampleInput 100] 0
          (exampleDaemon [(100, fiveDecoys)] noNodeFee (Returned True))) = Inr []
   \<and> length ([] :: RandomOutput list list) \<noteq> length [exampleInput 100]"
  by (simp add: getRingParticipants_def)

text \<open>
  C2 (amended). For every call with \<open>mixin = 0\<close>, whatever the inputs and the daemon are,
  \<open>getRingParticipants\<close> makes no call at all, so no network call, and returns the empty
  array.
\<close>

theorem zero_mixin_returns_empty:
  "getRingParticipants inputs 0 daemon = (Inr [], [])
   \<and> filter isNetworkCall (snd (getRingParticipants inputs 0 daemon)) = []"
  by (simp add: getRingParticipants_def)

subsection \<open>Insufficient buckets\<close>

text \<open>
  C1. The specification's example: inputs of amounts 100, 100 and 250, \<open>mixin = 3\<close>, and
  an answer with five decoys for 100 and two for 250, where resolution is to fail for
  amount 250 with 3 needed and 2 found, and to report nothing for 100. At this input
  \<open>getRingParticipants\<close> fails with \<open>NOT_ENOUGH_FAKE_OUTPUTS\<close> naming amount 100, 4 outputs
  needed and 2 found, although the bucket of 100 has five entries: line 253 compares the
  length of the found pair \<open>[amount, outputs]\<close>, which is 2, with \<open>mixin\<close>. The second
  loop (line 279), which reads the length of \<open>outputs\<close>, reports the bucket of 250 with
  2 found on the same answer.
\<close>

theorem insufficiency_example_reports_sufficient_amount:
  "fst (getRingParticipants [exampleInput 100, exampleInput 100, exampleInput 250] 3
          (exampleDaemon [(100, fiveDecoys), (250, twoDecoys)] noNodeFee (Returned True)))
     = Inl (newWalletErrorMsg NOT_ENOUGH_FAKE_OUTPUTS (FailedToGetEnough 100 4 2))
   \<and> length fiveDecoys = 5 \<and> length twoDecoys = 2
   \<and> FailedToGetEnough 100 4 2 \<noteq> FailedToGetEnough 250 3 2
   \<and> collectRandomOuts 3 4 [(100, fiveDecoys), (250, twoDecoys)] []
       = Inl (newWalletErrorMsg NOT_ENOUGH_FAKE_OUTPUTS (FailedToGetEnough 250 4 2))"
  by (simp add: getRingParticipants_def amountsOf_def exampleInput_def exampleDaemon_def
        fiveDecoys_def twoDecoys_def tupleLength_def)

subsection \<open>The number of buckets\<close>

text \<open>
  Two inputs of amount 100, \<open>mixin = 1\<close>, and an answer with two buckets for the one
  distinct amount: resolution succeeds.
\<close>

theorem bucket_count_counterexample:
  "length (getRandomOutputsByAmount
             (exampleDaemon [(100, oneDecoy), (100, twoDecoys)] noNodeFee (Returned True))
             (amountsOf [exampleInput 100, exampleInput 100]) 1) = 2
   \<and> length (remdups (amountsOf [exampleInput 100, exampleInput 100])) = 1
   \<and> fst (getRingParticipants [exampleInput 100, exampleInput 100] 1
            (exampleDaemon [(100, oneDecoy), (100, twoDecoys)] noNodeFee (Returned True)))
       = Inr [map toRandomOutput oneDecoy, map toRandomOutput twoDecoys]"
  by (simp add: getRingParticipants_def amountsOf_def exampleInput_def exampleDaemon_def
        oneDecoy_def twoDecoys_def tupleLength_def)

text \<open>
  C5 (amended). For every resolution with \<open>mixin > 0\<close> in which the answer is not empty
  and the first loop reports no error, if the number of buckets differs from the number
  of inputs (the requested amounts counted with their repetitions), resolution fails
  with \<open>NOT_ENOUGH_FAKE_OUTPUTS\<close> and no message.
\<close>

theorem bucket_count_mismatch:
  assumes "0 < mixin"
    and "getRandomOutputsByAmount daemon (amountsOf inputs) mixin \<noteq> []"
    and "checkAmounts mixin (mixin + 1)
           (getRandomOutputsByAmount daemon (amountsOf inputs) mixin) (amountsOf inputs) = None"
    and "length (getRandomOutputsByAmount daemon (amountsOf inputs) mixin) \<noteq> length inputs"
  shows "fst (getRingParticipants inputs mixin daemon) = Inl (newWalletError NOT_ENOUGH_FAKE_OUTPUTS)
       \<and> customMessage (newWalletError NOT_ENOUGH_FAKE_OUTPUTS) = NoMessage"
  using assms
  by (simp add: getRingParticipants_def Let_def amountsOf_def newWalletError_def)

text \<open>The theorem at two inputs of amount 100, \<open>mixin = 1\<close> and an answer of one bucket.\<close>

theorem bucket_count_mismatch_witness:
  "(0::int) < 1
   \<and> getRandomOutputsByAmount (exampleDaemon [(100, oneDecoy)] noNodeFee (Returned True))
        (amountsOf [exampleInput 100, exampleInput 100]) 1 \<noteq> []
   \<and> checkAmounts 1 (1 + 1)
        (getRandomOutputsByAmount (exampleDaemon [(100, oneDecoy)] noNodeFee (Returned True))
           (amountsOf [exampleInput 100, exampleInput 100]) 1)
        (amountsOf [exampleInput 100, exampleInput 100]) = None
   \<and> length (getRandomOutputsByAmount (exampleDaemon [(100, oneDecoy)] noNodeFee (Returned True))
        (amountsOf [exampleInput 100, exampleInput 100]) 1)
       \<noteq> length [exampleInput 100, exampleInput 100]
   \<and> fst (getRingParticipants [exampleInput 100, exampleInput 100] 1
            (exampleDaemon [(100, oneDecoy)] noNodeFee (Returned True)))
       = Inl (newWalletError NOT_ENOUGH_FAKE_OUTPUTS)
   \<and> customMessage (newWalletError NOT_ENOUGH_FAKE_OUTPUTS) = NoMessage"
proof -
  have h1: "(0::int) < 1" by simp
  have h2: "getRandomOutputsByAmount (exampleDaemon [(100, oneDecoy)] noNodeFee (Returned True))
        (amountsOf [exampleInput 100, exampleInput 100]) 1 \<noteq> []"
    by (simp add: exampleDaemon_def)
  have h3: "checkAmounts 1 (1 + 1)
        (getRandomOutputsByAmount (exampleDaemon [(100, oneDecoy)] noNodeFee (Returned True))
           (amountsOf [exampleInput 100, exampleInput 100]) 1)
        (amountsOf [exampleInput 100, exampleInput 100]) = None"
    by (simp add: exampleDaemon_def amountsOf_def exampleInput_def tupleLength_def)
  have h4: "length (getRandomOutputsByAmount (exampleDaemon [(100, oneDecoy)] noNodeFee (Returned True))
        (amountsOf [exampleInput 100, exampleInput 100]) 1)
       \<noteq> length [exampleInput 100, exampleInput 100]"
    by (simp add: exampleDaemon_def)
  from bucket_count_mismatch [OF h1 h2 h3 h4] h1 h2 h3 h4 show ?thesis by simp
qed

subsection \<open>The shape of a successful result\<close>

text \<open>
  Inputs of amounts 100 and 250, \<open>mixin = 1\<close>, and an answer that lists the bucket of 250
  (one decoy) before the bucket of 100 (two decoys): the first list of the result is the
  bucket of 250 although the first input has amount 100, and the second list has two
  entries.
\<close>

theorem ring_participants_shape_counterexample:
  "fst (getRingParticipants [exampleInput 100, exampleInput 250] 1
          (exampleDaemon [(250, oneDecoy), (100, twoDecoys)] noNodeFee (Returned True)))
     = Inr [map toRandomOutput oneDecoy, map toRandomOutput twoDecoys]
   \<and> amountsOf [exampleInput 100, exampleInput 250] = [100, 250]
   \<and> int (length (map toRandomOutput twoDecoys)) \<noteq> 1"
  by (simp add: getRingParticipants_def amountsOf_def exampleInput_def exampleDaemon_def
        oneDecoy_def twoDecoys_def tupleLength_def)

text \<open>
  C3 (amended). For every successful resolution with \<open>mixin > 0\<close>, the result has one
  decoy list per bucket of the answer, in the answer's order; the number of lists is the
  number of inputs; each list is its whole bucket, reshaped entry by entry in the
  bucket's order, and has at least \<open>mixin\<close> entries.
\<close>

theorem ring_participants_shape:
  assumes "0 < mixin"
    and "getRingParticipants inputs mixin daemon = (Inr randomOuts, calls)"
  shows "randomOuts = map (\<lambda>b. map toRandomOutput (snd b))
                        (getRandomOutputsByAmount daemon (amountsOf inputs) mixin)
       \<and> length randomOuts = length inputs
       \<and> (\<forall>l\<in>set randomOuts. mixin \<le> int (length l))"
proof -
  let ?outs = "getRandomOutputsByAmount daemon (amountsOf inputs) mixin"
  from assms have len: "length ?outs = length inputs"
    and col: "collectRandomOuts mixin (mixin + 1) ?outs [] = Inr randomOuts"
    by (auto simp: getRingParticipants_def Let_def amountsOf_def
          split: if_splits option.splits)
  from collectRandomOuts_Inr [OF col] len show ?thesis by auto
qed

text \<open>The theorem at the inputs and the answer of the example above.\<close>

theorem ring_participants_shape_witness:
  "(0::int) < 1
   \<and> getRingParticipants [exampleInput 100, exampleInput 250] 1
        (exampleDaemon [(250, oneDecoy), (100, twoDecoys)] noNodeFee (Returned True))
       = (Inr [map toRandomOutput oneDecoy, map toRandomOutput twoDecoys],
          [GetRandomOutputsByAmount [100, 250] 1])
   \<and> [map toRandomOutput oneDecoy, map toRandomOutput twoDecoys]
       = map (\<lambda>b. map toRandomOutput (snd b))
           (getRandomOutputsByAmount
              (exampleDaemon [(250, oneDecoy), (100, twoDecoys)] noNodeFee (Returned True))
              (amountsOf [exampleInput 100, exampleInput 250]) 1)
   \<and> length [map toRandomOutput oneDecoy, map toRandomOutput twoDecoys]
       = length [exampleInput 100, exampleInput 250]
   \<and> 1 \<le> int (length (map toRandomOutput oneDecoy))
   \<and> 1 \<le> int (length (map toRandomOutput twoDecoys))"
proof -
  have h1: "(0::int) < 1" by simp
  have h2: "getRingParticipants [exampleInput 100, exampleInput 250] 1
        (exampleDaemon [(250, oneDecoy), (100, twoDecoys)] noNodeFee (Returned True))
       = (Inr [map toRandomOutput oneDecoy, map toRandomOutput twoDecoys],
          [GetRandomOutputsByAmount [100, 250] 1])"
    by (simp add: getRingParticipants_def amountsOf_def exampleInput_def exampleDaemon_def
        oneDecoy_def twoDecoys_def tupleLength_def)
  from ring_participants_shape [OF h1 h2] h1 h2 show ?thesis
    by (simp add: exampleDaemon_def oneDecoy_def twoDecoys_def)
qed

section \<open>Properties of \<open>validateTransaction\<close> and \<open>sendTransactionAdvanced\<close>\<close>

subsection \<open>Auxiliary facts\<close>

lemma validateTransaction_firstFailure:
  "validateTransaction v destinations mixin fee paymentID subWalletsToTakeFrom changeAddress
     currentHeight subWallets =
   firstFailure (validationStages v destinations mixin fee paymentID subWalletsToTakeFrom
     changeAddress currentHeight subWallets)"
  by (simp add: validateTransaction_def validationStages_def Let_def)

lemma firstFailure_stops:
  "\<forall>e\<in>set passed. e = SUCCESS \<Longrightarrow> failed \<noteq> SUCCESS \<Longrightarrow>
   firstFailure (passed @ failed # later) = failed"
  by (induction passed) auto

lemma firstFailure_all_pass:
  "firstFailure stages = SUCCESS \<longleftrightarrow> (\<forall>e\<in>set stages. e = SUCCESS)"
  by (induction stages) auto

lemma prepareTransfers_amounts:
  "prepareTransfers cu destinations paymentID = Inr (transfers, paymentID1) \<Longrightarrow>
   map TxDestination.amount transfers = map snd destinations"
  by (induction cu destinations paymentID arbitrary: transfers paymentID1
        rule: prepareTransfers.induct)
     (auto split: js_result.splits sum.splits)

lemma getRingParticipants_calls:
  "snd (getRingParticipants inputs mixin daemon) =
     (if mixin = 0 then [] else [GetRandomOutputsByAmount (amountsOf inputs) mixin])"
  by (simp add: getRingParticipants_def Let_def split: option.splits)

lemma getRingParticipants_calls':
  "getRingParticipants inputs mixin daemon = (res, calls) \<Longrightarrow>
   calls = (if mixin = 0 then [] else [GetRandomOutputsByAmount (amountsOf inputs) mixin])"
  using getRingParticipants_calls [of inputs mixin daemon] by simp

lemma sendTransactionAdvanced_store:
  "sendTransactionAdvanced m daemon subWallets st addressesAndAmounts mixinArg feeArg
     paymentIDArg subWalletsToTakeFromArg changeAddressArg = (outcome, st', calls) \<Longrightarrow>
   st' = addNodeFee daemon st addressesAndAmounts"
  by (auto simp: sendTransactionAdvanced_def Let_def
        split: prod.splits sum.splits js_result.splits if_splits)

text \<open>The example request, evaluated: built and relayed, and a build that throws.\<close>

lemma exampleSend_built:
  "exampleSend (''node'', 5) relay (Returned exampleTx) None exampleStore =
     ((case relay of
         Returned relaySuccess \<Rightarrow>
           if relaySuccess then Resolved (Inr ''txhash'')
           else Resolved (Inl (newWalletError DAEMON_ERROR))
       | Threw err \<Rightarrow> Resolved (Inl (newWalletError DAEMON_OFFLINE))),
      exampleStore(0 := [(''dest'', 50), (''node'', 5)]),
      exampleCalls @ [SendTransaction ''rawtx''])"
  by (simp add: example_defs model_defs split: js_result.splits)


subsection \<open>Validation\<close>

text \<open>
  C6. For every send request, \<open>validateTransaction\<close> returns the result of the first of
  the seven stages, taken in the order destination validity, integrated-address conflict,
  funding-address ownership, balance sufficiency, mixin bounds, payment-ID syntax,
  change-address ownership, that is not \<open>SUCCESS\<close>, and \<open>SUCCESS\<close> when there is none. The
  stages are functions of their arguments. When the result is an error,
  \<open>sendTransactionAdvanced\<close> resolves with that error having made no call to the
  daemon's decoy fetch or relay (no call at all), and the store holds the array with the
  node fee added.
\<close>

theorem validation_order_and_gate:
  assumes defaults:
      "applyDefaults (config m) daemon subWallets mixinArg feeArg paymentIDArg
         subWalletsToTakeFromArg changeAddressArg
       = (mixin, fee, paymentID, subWalletsToTakeFrom, changeAddress)"
    and stages:
      "stages = validationStages (validators m)
                  (addNodeFee daemon st addressesAndAmounts addressesAndAmounts) mixin fee
                  paymentID subWalletsToTakeFrom changeAddress (getNetworkBlockCount daemon)
                  subWallets"
  shows "validateTransaction (validators m)
           (addNodeFee daemon st addressesAndAmounts addressesAndAmounts) mixin fee
           paymentID subWalletsToTakeFrom changeAddress (getNetworkBlockCount daemon)
           subWallets
         = firstFailure stages
       \<and> (firstFailure stages \<noteq> SUCCESS \<longrightarrow>
            sendTransactionAdvanced m daemon subWallets st addressesAndAmounts mixinArg
              feeArg paymentIDArg subWalletsToTakeFromArg changeAddressArg
            = (Resolved (Inl (firstFailure stages)),
               addNodeFee daemon st addressesAndAmounts, []))"
  using assms
  by (simp add: validateTransaction_firstFailure sendTransactionAdvanced_def Let_def)

text \<open>
  The theorem at the example request with \<open>mixin = 7\<close>: the first four stages pass, the
  mixin stage fails, and the call resolves with its error and an empty list of calls.
\<close>

theorem validation_order_and_gate_witness:
  "firstFailure
     (validationStages exampleValidators [(''dest'', 50), (''node'', 5)] 7 10 []
        [''walletA''] ''walletA'' 1000 (exampleSubWallets [exampleInput 100]))
     = newWalletError (OTHER_CODE 5)
   \<and> newWalletError (OTHER_CODE 5) \<noteq> SUCCESS
   \<and> exampleSend (''node'', 5) (Returned True) (Returned exampleTx) (Some 7) exampleStore
       = (Resolved (Inl (newWalletError (OTHER_CODE 5))),
          exampleStore(0 := [(''dest'', 50), (''node'', 5)]), [])"
proof -
  let ?m = "exampleModules (Returned exampleTx)"
  let ?d = "exampleDaemon [(100, oneDecoy)] (''node'', 5) (Returned True)"
  let ?sw = "exampleSubWallets [exampleInput 100]"
  let ?stages = "validationStages exampleValidators [(''dest'', 50), (''node'', 5)] 7 10 []
        [''walletA''] ''walletA'' 1000 ?sw"
  have defaults: "applyDefaults (config ?m) ?d ?sw (Some 7) None None None None
                  = (7, 10, [], [''walletA''], ''walletA'')"
    by (simp add: example_defs applyDefaults_def)
  have stages: "?stages = validationStages (validators ?m) (addNodeFee ?d exampleStore 0 0) 7 10 []
                  [''walletA''] ''walletA'' (getNetworkBlockCount ?d) ?sw"
    by (simp add: example_defs addNodeFee_def)
  have failure: "firstFailure ?stages = newWalletError (OTHER_CODE 5)"
    by (simp add: validationStages_def example_defs SUCCESS_def newWalletError_def)
  have store: "addNodeFee ?d exampleStore 0 = exampleStore(0 := [(''dest'', 50), (''node'', 5)])"
    by (simp add: example_defs addNodeFee_def)
  from validation_order_and_gate [OF defaults stages] failure store
  show ?thesis
    by (simp add: exampleSend_def SUCCESS_def newWalletError_def)
qed

subsection \<open>The node fee\<close>

text \<open>
  C7. For every call in which the daemon advertises a node fee whose amount is not zero
  (the amounts and the fee being non-negative and the total at most
  \<open>Number.MAX_SAFE_INTEGER\<close>), the validator receives the caller's destinations followed
  by the node-fee destination: a validation error of that list is the outcome, with no
  call made, and when an address of that list does not decode the promise rejects with
  what the codec threw, with no call made. Otherwise the transfers carry the amounts of
  that list, node fee included, and with the fee they sum to the total: the sum of the
  requested amounts plus the network fee plus the node fee. The first call is the input
  selection for that total; when the decoys are resolved, the build step is called with
  those transfers and that fee, and what it returns is submitted.
\<close>

theorem node_fee_in_assembled_total:
  assumes defaults:
      "applyDefaults (config m) daemon subWallets mixinArg feeArg paymentIDArg
         subWalletsToTakeFromArg changeAddressArg
       = (mixin, fee, paymentID, subWalletsToTakeFrom, changeAddress)"
    and nodeFee: "nodeFee daemon = (feeAddress, feeAmount)"
    and nonzero: "feeAmount \<noteq> 0"
    and destinations: "destinations = st addressesAndAmounts @ [(feeAddress, feeAmount)]"
    and nonnegative: "\<forall>d\<in>set destinations. 0 \<le> snd d" "0 \<le> fee"
    and totalAmount: "totalAmount = sum_list (map snd (st addressesAndAmounts)) + fee + feeAmount"
    and safe: "totalAmount \<le> maxSafeInteger"
    and err: "err = validateTransaction (validators m) destinations mixin fee paymentID
                      subWalletsToTakeFrom changeAddress (getNetworkBlockCount daemon)
                      subWallets"
    and run: "sendTransactionAdvanced m daemon subWallets st addressesAndAmounts mixinArg
                feeArg paymentIDArg subWalletsToTakeFromArg changeAddressArg
              = (outcome, st', calls)"
  shows "if err \<noteq> SUCCESS then outcome = Resolved (Inl err) \<and> calls = []
         else (case prepareTransfers (CryptoUtils m) destinations paymentID of
                 Inl thrown \<Rightarrow> outcome = Rejected thrown \<and> calls = []
               | Inr (transfers, paymentID1) \<Rightarrow>
                   map TxDestination.amount transfers = map snd destinations
                   \<and> sum_list (map TxDestination.amount transfers) + fee = totalAmount
                   \<and> (case getTransactionInputsForAmount subWallets totalAmount subWalletsToTakeFrom
                              (getNetworkBlockCount daemon) of
                         (inputs, foundMoney) \<Rightarrow>
                           (case getRingParticipants inputs mixin daemon of
                              (Inl walletError, calls2) \<Rightarrow>
                                outcome = Resolved (Inl walletError)
                                \<and> calls =
                                    GetTransactionInputsForAmount totalAmount subWalletsToTakeFrom
                                      (getNetworkBlockCount daemon) # calls2
                            | (Inr randomOuts, calls2) \<Rightarrow>
                                calls =
                                  GetTransactionInputsForAmount totalAmount subWalletsToTakeFrom
                                    (getNetworkBlockCount daemon) # calls2 @
                                  CreateTransaction transfers
                                    (map (toOurOutput (CryptoUtils m) subWallets) inputs)
                                    randomOuts mixin fee paymentID1 #
                                  (case createTransaction (CryptoUtils m) transfers
                                          (map (toOurOutput (CryptoUtils m) subWallets) inputs)
                                          randomOuts mixin fee paymentID1 of
                                     Threw thrown \<Rightarrow> []
                                   | Returned tx \<Rightarrow> [SendTransaction (rawTransaction tx)]))))"
proof -
  have st1: "addNodeFee daemon st addressesAndAmounts addressesAndAmounts = destinations"
    using nodeFee nonzero destinations by (simp add: addNodeFee_def)
  have sum: "sum_list (map snd destinations) + fee = totalAmount"
    using destinations totalAmount by simp
  show ?thesis
  proof (cases "err \<noteq> SUCCESS")
    case True
    with run defaults st1 err show ?thesis
      by (simp add: sendTransactionAdvanced_def Let_def)
  next
    case False
    show ?thesis
    proof (cases "prepareTransfers (CryptoUtils m) destinations paymentID")
      case (Inl thrown)
      with False run defaults st1 err show ?thesis
        by (simp add: sendTransactionAdvanced_def Let_def)
    next
      case (Inr r)
      obtain transfers paymentID1 where r: "r = (transfers, paymentID1)" by (cases r)
      have amounts: "map TxDestination.amount transfers = map snd destinations"
        using prepareTransfers_amounts [OF Inr [unfolded r]] .
      from False run defaults st1 err Inr r sum amounts show ?thesis
        by (auto simp: sendTransactionAdvanced_def Let_def
              split: prod.splits sum.splits js_result.splits if_splits)
    qed
  qed
qed

text \<open>
  The theorem at the example request: one destination of 50, fee 10 and node fee 5. The
  calls of \<open>sendTransactionAdvanced\<close> are the input selection for 65, the decoy fetch,
  the build with transfers of 50 and 5 and fee 10, and the submission.
\<close>

theorem node_fee_in_assembled_total_witness:
  "nodeFee (exampleDaemon [(100, oneDecoy)] (''node'', 5) (Returned True)) = (''node'', 5)
   \<and> (5::int) \<noteq> 0
   \<and> (0::int) \<le> 50 \<and> (0::int) \<le> 5 \<and> (0::int) \<le> 10
   \<and> sum_list (map snd (exampleStore 0)) + 10 + 5 = (65::int)
   \<and> (65::int) \<le> maxSafeInteger
   \<and> validateTransaction exampleValidators (exampleStore 0 @ [(''node'', 5)]) 1 10 []
         [''walletA''] ''walletA'' 1000 (exampleSubWallets [exampleInput 100]) = SUCCESS
   \<and> snd (snd (sendTransactionAdvanced (exampleModules (Returned exampleTx))
                  (exampleDaemon [(100, oneDecoy)] (''node'', 5) (Returned True))
                  (exampleSubWallets [exampleInput 100]) exampleStore 0
                  None None None None None))
       = [GetTransactionInputsForAmount 65 [''walletA''] 1000,
          GetRandomOutputsByAmount [100] 1,
          CreateTransaction exampleTransfers exampleOurOutputs [map toRandomOutput oneDecoy]
            1 10 [],
          SendTransaction ''rawtx'']
   \<and> map TxDestination.amount exampleTransfers = [50, 5]
   \<and> sum_list (map TxDestination.amount exampleTransfers) + 10 = 65"
proof -
  let ?m = "exampleModules (Returned exampleTx)"
  let ?d = "exampleDaemon [(100, oneDecoy)] (''node'', 5) (Returned True)"
  let ?sw = "exampleSubWallets [exampleInput 100]"
  let ?run = "sendTransactionAdvanced ?m ?d ?sw exampleStore 0 None None None None None"
  have defaults: "applyDefaults (config ?m) ?d ?sw None None None None None
                  = (1, 10, [], [''walletA''], ''walletA'')"
    by (simp add: example_defs applyDefaults_def)
  have nodeFee: "nodeFee ?d = (''node'', 5)"
    by (simp add: exampleDaemon_def)
  have nonzero: "(5::int) \<noteq> 0" by simp
  have nonnegative: "\<forall>d\<in>set (exampleStore 0 @ [(''node'', 5)]). 0 \<le> snd d"
    by (simp add: exampleStore_def)
  have fee: "(0::int) \<le> 10" by simp
  have total: "(65::int) = sum_list (map snd (exampleStore 0)) + 10 + 5"
    by (simp add: exampleStore_def)
  have safe: "(65::int) \<le> maxSafeInteger"
    by (simp add: maxSafeInteger_def)
  have err: "SUCCESS = validateTransaction (validators ?m) (exampleStore 0 @ [(''node'', 5)])
               1 10 [] [''walletA''] ''walletA'' (getNetworkBlockCount ?d) ?sw"
    by (simp add: example_defs validateTransaction_def SUCCESS_def newWalletError_def)
  have run: "?run = (fst ?run, fst (snd ?run), snd (snd ?run))" by simp
  have transfers: "prepareTransfers (CryptoUtils ?m) (exampleStore 0 @ [(''node'', 5)]) []
                   = Inr (exampleTransfers, [])"
    by (simp add: example_defs)
  have height: "getNetworkBlockCount ?d = 1000"
    by (simp add: exampleDaemon_def)
  have raw: "rawTransaction exampleTx = ''rawtx''"
    by (simp add: exampleTx_def)
  have inputs: "getTransactionInputsForAmount ?sw 65 [''walletA''] (getNetworkBlockCount ?d)
                = ([exampleInput 100], 100)"
    by (simp add: exampleSubWallets_def amountsOf_def exampleInput_def)
  have ring: "getRingParticipants [exampleInput 100] 1 ?d
              = (Inr [map toRandomOutput oneDecoy], [GetRandomOutputsByAmount [100] 1])"
    by (simp add: getRingParticipants_def amountsOf_def exampleInput_def exampleDaemon_def
          oneDecoy_def tupleLength_def)
  have ours: "map (toOurOutput (CryptoUtils ?m) ?sw) [exampleInput 100] = exampleOurOutputs"
    by (simp add: example_defs toOurOutput_def)
  have store: "exampleStore 0 = [(''dest'', 50)]"
    by (simp add: exampleStore_def)
  have built: "createTransaction (CryptoUtils ?m) exampleTransfers exampleOurOutputs
                 [map toRandomOutput oneDecoy] 1 10 [] = Returned exampleTx"
    by (simp add: exampleModules_def exampleCryptoUtils_def)
  have "map TxDestination.amount exampleTransfers = map snd (exampleStore 0 @ [(''node'', 5)])
        \<and> sum_list (map TxDestination.amount exampleTransfers) + 10 = 65
        \<and> snd (snd ?run)
            = GetTransactionInputsForAmount 65 [''walletA''] (getNetworkBlockCount ?d) #
              [GetRandomOutputsByAmount [100] 1] @
              CreateTransaction exampleTransfers exampleOurOutputs
                [map toRandomOutput oneDecoy] 1 10 [] #
              [SendTransaction (rawTransaction exampleTx)]"
    using node_fee_in_assembled_total
            [OF defaults nodeFee nonzero refl nonnegative fee total safe err run,
             unfolded simp_thms if_False transfers inputs ring ours built sum.case
               prod.case js_result.case]
    by blast
  with nodeFee total safe err height raw store show ?thesis
    by (simp add: exampleModules_def)
qed

subsection \<open>Relay\<close>

text \<open>
  C8. For every call that built a transaction \<open>tx\<close> (the build step was called and
  returned \<open>tx\<close>), the last call is the submission of \<open>rawTransaction tx\<close>, and the
  outcome is \<open>hash tx\<close> when the daemon returns true, the error \<open>DAEMON_ERROR\<close> when it
  returns false, and the error \<open>DAEMON_OFFLINE\<close> when the submission throws.
\<close>

theorem relay_outcomes:
  assumes run: "sendTransactionAdvanced m daemon subWallets st addressesAndAmounts mixinArg
                  feeArg paymentIDArg subWalletsToTakeFromArg changeAddressArg
                = (outcome, st', calls)"
    and built: "CreateTransaction transfers ourOutputs randomOuts mixin fee paymentID \<in> set calls"
    and tx: "createTransaction (CryptoUtils m) transfers ourOutputs randomOuts mixin fee paymentID
             = Returned tx"
  shows "last calls = SendTransaction (rawTransaction tx)
       \<and> outcome =
           (case sendTransaction daemon (rawTransaction tx) of
              Returned relaySuccess \<Rightarrow>
                if relaySuccess then Resolved (Inr (hash tx))
                else Resolved (Inl (newWalletError DAEMON_ERROR))
            | Threw err \<Rightarrow> Resolved (Inl (newWalletError DAEMON_OFFLINE)))
       \<and> newWalletError DAEMON_OFFLINE \<noteq> newWalletError DAEMON_ERROR"
  using assms
  by (auto simp: sendTransactionAdvanced_def Let_def newWalletError_def
        split: prod.splits sum.splits js_result.splits if_splits
        dest!: getRingParticipants_calls')

text \<open>The theorem at the example request, for each of the three answers of the daemon.\<close>

theorem relay_outcomes_witness:
  "fst (exampleSend (''node'', 5) (Returned True) (Returned exampleTx) None exampleStore)
     = Resolved (Inr (hash exampleTx))
   \<and> fst (exampleSend (''node'', 5) (Returned False) (Returned exampleTx) None exampleStore)
     = Resolved (Inl (newWalletError DAEMON_ERROR))
   \<and> fst (exampleSend (''node'', 5) (Threw (JsError ''Error'' ''timeout'')) (Returned exampleTx)
            None exampleStore)
     = Resolved (Inl (newWalletError DAEMON_OFFLINE))
   \<and> CreateTransaction exampleTransfers exampleOurOutputs [map toRandomOutput oneDecoy] 1 10 []
       \<in> set (exampleCalls @ [SendTransaction ''rawtx''])
   \<and> last (exampleCalls @ [SendTransaction ''rawtx''])
       = SendTransaction (rawTransaction exampleTx)"
proof -
  let ?m = "exampleModules (Returned exampleTx)"
  have built: "CreateTransaction exampleTransfers exampleOurOutputs
                 [map toRandomOutput oneDecoy] 1 10 []
               \<in> set (exampleCalls @ [SendTransaction ''rawtx''])"
    by (simp add: exampleCalls_def)
  have tx: "createTransaction (CryptoUtils ?m) exampleTransfers exampleOurOutputs
              [map toRandomOutput oneDecoy] 1 10 [] = Returned exampleTx"
    by (simp add: exampleModules_def exampleCryptoUtils_def)
  note run = exampleSend_built [unfolded exampleSend_def]
  from relay_outcomes [OF run [of "Returned True"] built tx]
    relay_outcomes [OF run [of "Returned False"] built tx]
    relay_outcomes [OF run [of "Threw (JsError ''Error'' ''timeout'')"] built tx]
    built exampleSend_built
  show ?thesis
    by (simp add: exampleDaemon_def exampleTx_def)
qed

subsection \<open>Build failure\<close>



subsection \<open>The caller's array\<close>

text \<open>
  C10. For every call, whatever its outcome, the store it leaves is the store it found
  with the node-fee destination appended to the caller's array when the advertised
  amount is not zero, and the same store when it is zero. A second call with the same
  array and the same daemon leaves the array with the node-fee destination appended
  twice.
\<close>

theorem node_fee_pushed_onto_callers_array:
  assumes nodeFee: "nodeFee daemon = (feeAddress, feeAmount)"
    and first: "sendTransactionAdvanced m daemon subWallets st addressesAndAmounts mixinArg
                  feeArg paymentIDArg subWalletsToTakeFromArg changeAddressArg
                = (outcome1, st1, calls1)"
    and second: "sendTransactionAdvanced m' daemon subWallets' st1 addressesAndAmounts mixinArg'
                   feeArg' paymentIDArg' subWalletsToTakeFromArg' changeAddressArg'
                 = (outcome2, st2, calls2)"
  shows "st1 = (if feeAmount \<noteq> 0
                then st(addressesAndAmounts := st addressesAndAmounts @ [(feeAddress, feeAmount)])
                else st)
       \<and> st2 addressesAndAmounts =
           (if feeAmount \<noteq> 0
            then st addressesAndAmounts @ [(feeAddress, feeAmount), (feeAddress, feeAmount)]
            else st addressesAndAmounts)"
proof -
  from first sendTransactionAdvanced_store
  have st1: "st1 = addNodeFee daemon st addressesAndAmounts" by blast
  from second sendTransactionAdvanced_store
  have st2: "st2 = addNodeFee daemon st1 addressesAndAmounts" by blast
  from st1 st2 nodeFee show ?thesis
    by (simp add: addNodeFee_def)
qed

text \<open>
  The theorem at the example request, called twice on the array at reference 0, and once
  with a daemon that advertises no node fee.
\<close>

theorem node_fee_pushed_onto_callers_array_witness:
  "fst (snd (exampleSend (''node'', 5) (Returned True) (Returned exampleTx) None exampleStore))
     = exampleStore(0 := [(''dest'', 50), (''node'', 5)])
   \<and> fst (snd (exampleSend (''node'', 5) (Returned True) (Returned exampleTx) None
        (fst (snd (exampleSend (''node'', 5) (Returned True) (Returned exampleTx) None
                     exampleStore))))) 0
     = [(''dest'', 50), (''node'', 5), (''node'', 5)]
   \<and> fst (snd (exampleSend noNodeFee (Returned True) (Returned exampleTx) None exampleStore))
     = exampleStore"
proof -
  let ?m = "exampleModules (Returned exampleTx)"
  let ?d = "exampleDaemon [(100, oneDecoy)] (''node'', 5) (Returned True)"
  let ?dz = "exampleDaemon [(100, oneDecoy)] noNodeFee (Returned True)"
  let ?sw = "exampleSubWallets [exampleInput 100]"
  let ?run1 = "sendTransactionAdvanced ?m ?d ?sw exampleStore 0 None None None None None"
  let ?run2 = "sendTransactionAdvanced ?m ?d ?sw (fst (snd ?run1)) 0 None None None None None"
  let ?runZ = "sendTransactionAdvanced ?m ?dz ?sw exampleStore 0 None None None None None"
  let ?runZ2 = "sendTransactionAdvanced ?m ?dz ?sw (fst (snd ?runZ)) 0 None None None None None"
  have nodeFee: "nodeFee ?d = (''node'', 5)" by (simp add: exampleDaemon_def)
  have nodeFeeZ: "nodeFee ?dz = ([], 0)" by (simp add: exampleDaemon_def noNodeFee_def)
  have first: "?run1 = (fst ?run1, fst (snd ?run1), snd (snd ?run1))" by simp
  have second: "?run2 = (fst ?run2, fst (snd ?run2), snd (snd ?run2))" by simp
  have firstZ: "?runZ = (fst ?runZ, fst (snd ?runZ), snd (snd ?runZ))" by simp
  have secondZ: "?runZ2 = (fst ?runZ2, fst (snd ?runZ2), snd (snd ?runZ2))" by simp
  have s1: "fst (snd ?run1) = exampleStore(0 := [(''dest'', 50), (''node'', 5)])"
    using node_fee_pushed_onto_callers_array [OF nodeFee first second, THEN conjunct1]
    by (simp add: exampleStore_def)
  have s2: "fst (snd ?run2) 0 = [(''dest'', 50), (''node'', 5), (''node'', 5)]"
    using node_fee_pushed_onto_callers_array [OF nodeFee first second, THEN conjunct2]
    by (simp add: exampleStore_def)
  have sZ: "fst (snd ?runZ) = exampleStore"
    using node_fee_pushed_onto_callers_array [OF nodeFeeZ firstZ secondZ, THEN conjunct1]
    by simp
  show ?thesis
    unfolding exampleSend_def using s1 s2 sZ by blast
qed

end
